theory Spec2Isabelle
  imports Main "HOL-Library.Sublist"
begin

section \<open>Data model of the authentication context\<close>

text \<open>
  The development embeds \<^verbatim>\<open>src/contexts/AuthContext.tsx\<close>: the provider's React state
  (\<^verbatim>\<open>user\<close>, \<^verbatim>\<open>loading\<close>), the effect that fetches the initial session and subscribes
  to auth-state changes, the credential operations and the \<^verbatim>\<open>useAuth\<close> hook.
  Remote calls are awaited promises: the model takes the settled value of each
  promise as an argument, so that every outcome of the remote service is an input.
\<close>

text \<open>A JavaScript \<^verbatim>\<open>Error\<close> object; only its \<^verbatim>\<open>message\<close> is read by the code.\<close>

datatype js_error = Error (message: string)

text \<open>An awaited promise either fulfils with a value or rejects (the \<^verbatim>\<open>await\<close> throws).\<close>

datatype 'a awaited = Fulfilled 'a | Rejected js_error

text \<open>The remote client's \<^verbatim>\<open>{ data, error }\<close> result object.\<close>

record 'd response =
  data :: 'd
  error :: "js_error option"

text \<open>
  The user record embedded in a remote session: \<^verbatim>\<open>id\<close>, the optional \<^verbatim>\<open>email\<close> and
  the free-form \<^verbatim>\<open>user_metadata\<close> map, which the code reads through \<^verbatim>\<open>?.\<close>.
\<close>

record auth_user =
  user_id :: string
  user_email :: "string option"
  user_metadata :: "(string \<rightharpoonup> string) option"

text \<open>A remote session: an opaque token bundle and the embedded user.\<close>

record session =
  access_token :: string
  session_user :: auth_user

text \<open>The local projection \<^verbatim>\<open>User\<close> of \<^verbatim>\<open>types/auth\<close>.\<close>

record User =
  id' :: string
  email :: string
  username :: "string option"

text \<open>The events of the remote client's change-notification stream.\<close>

datatype auth_event =
  INITIAL_SESSION | SIGNED_IN | SIGNED_OUT | TOKEN_REFRESHED | USER_UPDATED
  | PASSWORD_RECOVERY | MFA_CHALLENGE_VERIFIED

text \<open>
  The row written to the remote table \<^verbatim>\<open>users\<close>, and the calls the provider issues to
  the remote client, recorded in the order in which they are issued.
\<close>

record upsert_row =
  row_id :: string
  row_email :: "string option"
  created_at :: string

datatype remote_call =
    GetSession
  | GetUser
  | SignUp string string string string
  | SignInWithPassword string string
  | SignOut
  | Upsert string upsert_row string bool
  | Subscribe nat
  | Unsubscribe nat

datatype console_entry =
    ConsoleLog string auth_event "session option"
  | ConsoleError string js_error

text \<open>
  A cookie of the browser's store, with the attributes that decide which document sees
  it and which assignment replaces it (RFC 6265, section 5.3): the domain it was stored
  for and whether it is bound to that host alone, its path, and the flags \<^verbatim>\<open>Secure\<close> and
  \<^verbatim>\<open>HttpOnly\<close>.
\<close>

record cookie =
  cookie_name :: string
  cookie_value :: string
  cookie_domain :: string
  host_only :: bool
  cookie_path :: string
  secure_only :: bool
  http_only :: bool

text \<open>
  The state the provider reads and writes: the two React state cells, the browser
  stores (with the exception that every access to them throws when the browser denies
  storage to the page, if it does), the browser's cookies, the document's origin and
  location with the session history behind it, the console and the remote calls issued.
  The last four fields belong to the effect: the handlers registered at the remote
  client, the next fresh subscription id, the subscription held by the cleanup closure
  of the last effect run, and the dependency array \<^verbatim>\<open>[loading]\<close> of that run.
\<close>

record provider =
  user :: "User option"
  loading :: bool
  localStorage :: "(string \<times> string) list"
  sessionStorage :: "(string \<times> string) list"
  storage_denied :: "js_error option"
  cookies :: "cookie list"
  origin :: string
  location :: string
  history :: "string list"
  console :: "console_entry list"
  calls :: "remote_call list"
  subscribed :: "nat list"
  next_subscription :: nat
  effect_cleanup :: "nat option"
  effect_deps :: "bool option"

text \<open>
  The state of a provider that has rendered for the first time and whose effect has
  not run yet: \<^verbatim>\<open>useState<User | null>(null)\<close> and \<^verbatim>\<open>useState(true)\<close>.
\<close>

definition AuthProvider :: "(string \<times> string) list \<Rightarrow> (string \<times> string) list \<Rightarrow>
    cookie list \<Rightarrow> string \<Rightarrow> string \<Rightarrow> string list \<Rightarrow> provider" where
  "AuthProvider local_store session_store cookie_jar org loc hist =
     \<lparr> user = None, loading = True,
       localStorage = local_store, sessionStorage = session_store, storage_denied = None,
       cookies = cookie_jar,
       origin = org, location = loc, history = hist,
       console = [], calls = [],
       subscribed = [], next_subscription = 0, effect_cleanup = None, effect_deps = None \<rparr>"

definition setUser :: "User option \<Rightarrow> provider \<Rightarrow> provider" where
  "setUser u st = st\<lparr>user := u\<rparr>"

definition setLoading :: "bool \<Rightarrow> provider \<Rightarrow> provider" where
  "setLoading b st = st\<lparr>loading := b\<rparr>"

definition console_log :: "string \<Rightarrow> auth_event \<Rightarrow> session option \<Rightarrow> provider \<Rightarrow> provider" where
  "console_log label event sess st = st\<lparr>console := console st @ [ConsoleLog label event sess]\<rparr>"

definition console_error :: "string \<Rightarrow> js_error \<Rightarrow> provider \<Rightarrow> provider" where
  "console_error label e st = st\<lparr>console := console st @ [ConsoleError label e]\<rparr>"

definition remote :: "remote_call \<Rightarrow> provider \<Rightarrow> provider" where
  "remote c st = st\<lparr>calls := calls st @ [c]\<rparr>"

text \<open>
  The object literal passed to \<^verbatim>\<open>setUser\<close>: \<^verbatim>\<open>email || ''\<close> replaces a missing email by
  the empty string, and \<^verbatim>\<open>user_metadata?.username\<close> is absent when the metadata or the
  key is.
\<close>

definition to_User :: "auth_user \<Rightarrow> User" where
  "to_User u =
     \<lparr> id' = user_id u,
       email = (case user_email u of None \<Rightarrow> [] | Some e \<Rightarrow> e),
       username = (case user_metadata u of None \<Rightarrow> None | Some m \<Rightarrow> m ''username'') \<rparr>"

text \<open>\<^verbatim>\<open>session?.user\<close>: absent when the session is \<^verbatim>\<open>null\<close>.\<close>

definition user_of :: "session option \<Rightarrow> auth_user option" where
  "user_of sess = (case sess of None \<Rightarrow> None | Some s \<Rightarrow> Some (session_user s))"

section \<open>The initial session fetch\<close>

text \<open>
  \<^verbatim>\<open>initializeAuth\<close> calls \<^verbatim>\<open>getSession()\<close> and awaits it (\<open>initializeAuth_begin\<close>); when
  the session carries a user it then awaits \<^verbatim>\<open>getUser()\<close>. Every write to the React
  state happens after the last await, so the rest of the function is modelled at its
  completion (\<open>initializeAuth_resume\<close>), from the settled values of the two calls.
  The \<^verbatim>\<open>catch\<close> takes every exception and the \<^verbatim>\<open>finally\<close> clears \<^verbatim>\<open>loading\<close>; the
  returned promise therefore never rejects (\<open>Inr ()\<close>).
\<close>

definition initializeAuth_begin :: "provider \<Rightarrow> provider" where
  "initializeAuth_begin st = remote GetSession st"

definition initializeAuth_resume ::
  "session option response awaited \<Rightarrow> 'u response awaited \<Rightarrow> provider \<Rightarrow> (js_error + unit) \<times> provider" where
  "initializeAuth_resume got_session got_user st =
     (let body =
            (case got_session of
               Rejected e \<Rightarrow> setUser None (console_error ''Auth initialization error:'' e st)
             | Fulfilled r \<Rightarrow>
                 (case error r of
                    Some e \<Rightarrow>
                      setLoading False (setUser None (console_error ''Session validation error:'' e st))
                  | None \<Rightarrow>
                      (case user_of (data r) of
                         None \<Rightarrow> setUser None st
                       | Some u \<Rightarrow>
                           (let st1 = remote GetUser st in
                            case got_user of
                              Rejected e \<Rightarrow>
                                setUser None (console_error ''Auth initialization error:'' e st1)
                            | Fulfilled ru \<Rightarrow>
                                (case error ru of
                                   Some e \<Rightarrow> setUser None (console_error ''Session invalid:'' e st1)
                                 | None \<Rightarrow> setUser (Some (to_User u)) st1)))))
      in (Inr (), setLoading False body))"

definition initializeAuth ::
  "session option response awaited \<Rightarrow> 'u response awaited \<Rightarrow> provider \<Rightarrow> (js_error + unit) \<times> provider" where
  "initializeAuth got_session got_user st =
     initializeAuth_resume got_session got_user (initializeAuth_begin st)"

section \<open>The auth-state subscription handler\<close>

text \<open>
  The handler is an \<^verbatim>\<open>async\<close> function with one \<^verbatim>\<open>await\<close>, on the upsert. It is modelled
  in the two segments that run without interruption: \<open>handler_begin\<close> runs from the call
  to the \<^verbatim>\<open>await\<close> (or to the end, in the branch without upsert), \<open>handler_resume\<close>
  from the settled upsert to the end. The variable \<^verbatim>\<open>loading\<close> read at the end is the
  one the closure captured when the effect created the handler; it is the argument
  \<open>captured\<close>. The timestamp \<^verbatim>\<open>new Date().toISOString()\<close> is the argument \<open>now\<close>.
\<close>

datatype handler_status = Completed | AwaitingUpsert

definition after_initial_load :: "bool \<Rightarrow> provider \<Rightarrow> provider" where
  "after_initial_load captured st = (if captured then setLoading False st else st)"

definition handler_begin ::
  "bool \<Rightarrow> string \<Rightarrow> auth_event \<Rightarrow> session option \<Rightarrow> provider \<Rightarrow> handler_status \<times> provider" where
  "handler_begin captured now event sess st =
     (let st0 = console_log ''Auth state change:'' event sess st in
      if event = SIGNED_OUT \<or> user_of sess = None
      then (Completed, after_initial_load captured (setUser None st0))
      else
        (case user_of sess of
           Some u \<Rightarrow>
             (AwaitingUpsert,
              remote (Upsert ''users''
                        \<lparr> row_id = user_id u, row_email = user_email u, created_at = now \<rparr>
                        ''id'' False)
                (setUser (Some (to_User u)) st0))
         | None \<Rightarrow> (Completed, after_initial_load captured st0)))"

definition handler_resume :: "bool \<Rightarrow> 'r awaited \<Rightarrow> provider \<Rightarrow> (js_error + unit) \<times> provider" where
  "handler_resume captured upserted st =
     (Inr (),
      after_initial_load captured
        (case upserted of
           Rejected e \<Rightarrow> console_error ''Error upserting user:'' e st
         | Fulfilled r \<Rightarrow> st))"

text \<open>The handler run to its end, given the settled upsert.\<close>

definition handler ::
  "bool \<Rightarrow> string \<Rightarrow> auth_event \<Rightarrow> session option \<Rightarrow> 'r awaited \<Rightarrow> provider \<Rightarrow> (js_error + unit) \<times> provider" where
  "handler captured now event sess upserted st =
     (case handler_begin captured now event sess st of
        (Completed, st') \<Rightarrow> (Inr (), st')
      | (AwaitingUpsert, st') \<Rightarrow> handler_resume captured upserted st')"

text \<open>
  The \<^verbatim>\<open>loading\<close> held by the closure of the handler that is registered: the value of
  the render whose effect registered it, which is the dependency of the last effect
  run; before any effect run, the value of the first render.
\<close>

definition captured_loading :: "provider \<Rightarrow> bool" where
  "captured_loading st = (case effect_deps st of Some dep \<Rightarrow> dep | None \<Rightarrow> loading st)"

text \<open>
  Deliveries to the provider: a change notification (with the clock reading at its
  arrival), or the settling of the upsert of a suspended handler invocation, named by
  its position among the suspended ones. Invocations suspended at their upsert are kept
  with the \<^verbatim>\<open>loading\<close> they captured; a notification goes to the handler of the current
  subscription. Upserts may settle in any order and at any time after they were
  started.
\<close>

datatype 'r delivery =
    Notify string auth_event "session option"
  | UpsertSettled nat "'r awaited"

fun deliver :: "'r delivery \<Rightarrow> provider \<times> bool list \<Rightarrow> provider \<times> bool list" where
  "deliver (Notify now event sess) (st, suspended) =
     (case handler_begin (captured_loading st) now event sess st of
        (Completed, st') \<Rightarrow> (st', suspended)
      | (AwaitingUpsert, st') \<Rightarrow> (st', suspended @ [captured_loading st]))"
| "deliver (UpsertSettled i upserted) (st, suspended) =
     (if i < length suspended
      then (snd (handler_resume (suspended ! i) upserted st), take i suspended @ drop (Suc i) suspended)
      else (st, suspended))"

definition run :: "'r delivery list \<Rightarrow> provider \<times> bool list \<Rightarrow> provider \<times> bool list" where
  "run ds cfg = fold deliver ds cfg"

text \<open>The most recent notification of a sequence of deliveries, if there is one.\<close>

fun last_notification :: "'r delivery list \<Rightarrow> (auth_event \<times> session option) option" where
  "last_notification [] = None"
| "last_notification (Notify now event sess # ds) =
     (case last_notification ds of None \<Rightarrow> Some (event, sess) | Some n \<Rightarrow> Some n)"
| "last_notification (UpsertSettled i upserted # ds) = last_notification ds"

section \<open>Strings and cookies\<close>

text \<open>
  \<^verbatim>\<open>String.prototype.includes\<close>: the argument occurs somewhere in the string.
\<close>

fun starts_with :: "string \<Rightarrow> string \<Rightarrow> bool" where
  "starts_with s [] = True"
| "starts_with [] (p # ps) = False"
| "starts_with (c # cs) (p # ps) = (c = p \<and> starts_with cs ps)"

fun includes' :: "string \<Rightarrow> string \<Rightarrow> bool" where
  "includes' [] sub = (sub = [])"
| "includes' (c # cs) sub = (starts_with (c # cs) sub \<or> includes' cs sub)"

text \<open>
  \<^verbatim>\<open>s.split(sep)\<close> with a one-character separator: the pieces between the separators, one
  more than there are separators (the empty string has the single piece \<^verbatim>\<open>""\<close>).
\<close>

fun split_str :: "char \<Rightarrow> string \<Rightarrow> string list" where
  "split_str sep [] = [[]]"
| "split_str sep (c # cs) =
     (if c = sep then [] # split_str sep cs
      else (case split_str sep cs of [] \<Rightarrow> [[c]] | p # ps \<Rightarrow> (c # p) # ps))"

text \<open>\<^verbatim>\<open>c.replace(/^ +/, "")\<close> removes the spaces at the start of the string.\<close>

definition strip_leading_spaces :: "string \<Rightarrow> string" where
  "strip_leading_spaces c = dropWhile (\<lambda>x. x = CHR '' '') c"

text \<open>
  \<^verbatim>\<open>c.replace(/=.*/, r)\<close> replaces the first \<^verbatim>\<open>=\<close> and what follows it on the same line
  by \<^verbatim>\<open>r\<close> (the dot matches no line terminator); a string without \<^verbatim>\<open>=\<close> is unchanged.
  The replacement string built by the code contains no \<^verbatim>\<open>$\<close> pattern.
\<close>

definition line_terminator :: "char \<Rightarrow> bool" where
  "line_terminator x = (x = CHR 0x0A \<or> x = CHR 0x0D)"

definition replace_from_equals :: "string \<Rightarrow> string \<Rightarrow> string" where
  "replace_from_equals c r =
     (if CHR ''='' \<in> set c
      then takeWhile (\<lambda>x. x \<noteq> CHR ''='') c @ r
           @ dropWhile (\<lambda>x. \<not> line_terminator x) (tl (dropWhile (\<lambda>x. x \<noteq> CHR ''='') c))
      else c)"

text \<open>
  The browser's side of \<^verbatim>\<open>document.cookie\<close>, after RFC 6265 and its revision
  (draft-ietf-httpbis-rfc6265bis), for a document with host \<open>h\<close>, request path \<open>rp\<close>
  and a scheme that is secure or not (\<open>sec\<close>).
\<close>

fun join :: "string \<Rightarrow> string list \<Rightarrow> string" where
  "join sep [] = []"
| "join sep [x] = x"
| "join sep (x # y # ys) = x @ sep @ join sep (y # ys)"

text \<open>
  The characters the browser's parser deals with: white space (space and horizontal tab)
  is trimmed, a string with a control character other than the tab is refused, and
  attribute names and the two name prefixes are compared without regard to case.
\<close>

definition whitespace :: "char \<Rightarrow> bool" where
  "whitespace x = (x = CHR '' '' \<or> x = CHR 0x09)"

definition control_character :: "char \<Rightarrow> bool" where
  "control_character x = (((of_char x :: nat) < 32 \<and> x \<noteq> CHR 0x09) \<or> x = CHR 0x7F)"

definition lower :: "char \<Rightarrow> char" where
  "lower x =
     (if 65 \<le> (of_char x :: nat) \<and> (of_char x :: nat) \<le> 90
      then char_of ((of_char x :: nat) + 32) else x)"

definition trim :: "string \<Rightarrow> string" where
  "trim s = rev (dropWhile whitespace (rev (dropWhile whitespace s)))"

text \<open>
  Domain matching and path matching (sections 5.1.3 and 5.1.4), and the default path
  of a cookie set without \<^verbatim>\<open>Path\<close>: the request path up to its last \<^verbatim>\<open>/\<close>.
\<close>

definition domain_match :: "string \<Rightarrow> cookie \<Rightarrow> bool" where
  "domain_match h c =
     (if host_only c then cookie_domain c = h
      else (cookie_domain c = h \<or> suffix (CHR ''.'' # cookie_domain c) h))"

definition path_match :: "string \<Rightarrow> string \<Rightarrow> bool" where
  "path_match cp rp =
     (cp = rp \<or>
      (cp \<noteq> [] \<and> length cp < length rp \<and> starts_with rp cp
       \<and> (last cp = CHR ''/'' \<or> rp ! length cp = CHR ''/'')))"

definition default_path :: "string \<Rightarrow> string" where
  "default_path rp =
     (if starts_with rp ''/''
      then (case rev (tl (dropWhile (\<lambda>x. x \<noteq> CHR ''/'') (rev rp))) of
              [] \<Rightarrow> ''/''
            | d # ds \<Rightarrow> d # ds)
      else ''/'')"

text \<open>
  Reading \<^verbatim>\<open>document.cookie\<close> gives the cookies the document may see (not \<^verbatim>\<open>HttpOnly\<close>,
  matching its host and path, and \<^verbatim>\<open>Secure\<close> ones only under a secure scheme), each as
  \<^verbatim>\<open>name=value\<close>, or as its value alone when it has no name, joined by \<^verbatim>\<open>"; "\<close>.
\<close>

definition visible :: "string \<Rightarrow> bool \<Rightarrow> string \<Rightarrow> cookie \<Rightarrow> bool" where
  "visible h sec rp c =
     (\<not> http_only c \<and> domain_match h c \<and> path_match (cookie_path c) rp
      \<and> (sec \<or> \<not> secure_only c))"

definition render :: "cookie \<Rightarrow> string" where
  "render c =
     (if cookie_name c = [] then cookie_value c else cookie_name c @ ''='' @ cookie_value c)"

definition cookie_string :: "string \<Rightarrow> bool \<Rightarrow> string \<Rightarrow> cookie list \<Rightarrow> string" where
  "cookie_string h sec rp store = join ''; '' (map render (filter (visible h sec rp) store))"

text \<open>
  Assigning a string to \<^verbatim>\<open>document.cookie\<close> (sections 5.2 and 5.3). The text before the
  first \<^verbatim>\<open>;\<close> is the name-value pair, the rest are attributes; without \<^verbatim>\<open>=\<close> the pair is
  the value of a cookie without name. Names, values and attributes are trimmed; the last
  attribute of a name counts, the name taken in lower case. The new cookie is bound to the document's host alone (the
  program writes no \<^verbatim>\<open>Domain\<close> attribute, and none is read here). The assignment is
  ignored when the string holds a control character, when name and value are both empty,
  when it asks for \<^verbatim>\<open>HttpOnly\<close>, when it asks for \<^verbatim>\<open>Secure\<close> from a scheme that is not
  secure, when the name begins with \<^verbatim>\<open>__Secure-\<close> or \<^verbatim>\<open>__Host-\<close> and the attributes that
  prefix demands are missing, when the new cookie is not \<^verbatim>\<open>Secure\<close>, the scheme is not
  secure and a \<^verbatim>\<open>Secure\<close> cookie of that name with a related domain and a matching path
  is stored, and when the cookie it would replace is \<^verbatim>\<open>HttpOnly\<close>. Otherwise the stored
  cookie with the same name, domain, host binding and path is removed, and the new one
  is stored unless its \<^verbatim>\<open>expires\<close> attribute carries the current clock reading \<open>now\<close>
  (an expiry time that has been reached).
\<close>

definition cookie_key :: "cookie \<Rightarrow> string \<times> string \<times> bool \<times> string" where
  "cookie_key c = (cookie_name c, cookie_domain c, host_only c, cookie_path c)"

definition attribute :: "string \<Rightarrow> string list \<Rightarrow> string option" where
  "attribute key attrs =
     (case filter (\<lambda>a. map lower (trim (takeWhile (\<lambda>x. x \<noteq> CHR ''='') a)) = key) attrs of
        [] \<Rightarrow> None
      | a # as \<Rightarrow>
          Some (trim (drop (Suc (length (takeWhile (\<lambda>x. x \<noteq> CHR ''='') (last (a # as)))))
                        (last (a # as)))))"

definition related_domain :: "string \<Rightarrow> string \<Rightarrow> bool" where
  "related_domain h d = (d = h \<or> suffix (CHR ''.'' # d) h \<or> suffix (CHR ''.'' # h) d)"

definition shadowed :: "string \<Rightarrow> bool \<Rightarrow> string \<Rightarrow> string \<Rightarrow> cookie list \<Rightarrow> bool" where
  "shadowed h sec name path store =
     (\<not> sec \<and>
      list_ex (\<lambda>old. secure_only old \<and> cookie_name old = name
                 \<and> related_domain h (cookie_domain old) \<and> path_match (cookie_path old) path)
        store)"

definition cookie_attributes :: "string \<Rightarrow> string list" where
  "cookie_attributes s =
     split_str (CHR '';'') (drop (Suc (length (takeWhile (\<lambda>x. x \<noteq> CHR '';'') s))) s)"

definition parsed_cookie :: "string \<Rightarrow> string \<Rightarrow> string \<Rightarrow> cookie" where
  "parsed_cookie h rp s =
     (let pair = takeWhile (\<lambda>x. x \<noteq> CHR '';'') s;
          name = (if CHR ''='' \<in> set pair then trim (takeWhile (\<lambda>x. x \<noteq> CHR ''='') pair) else []);
          val = (if CHR ''='' \<in> set pair
                 then trim (drop (Suc (length (takeWhile (\<lambda>x. x \<noteq> CHR ''='') pair))) pair)
                 else trim pair);
          path = (case attribute ''path'' (cookie_attributes s) of
                    None \<Rightarrow> default_path rp
                  | Some p \<Rightarrow> if starts_with p ''/'' then p else default_path rp)
      in \<lparr> cookie_name = name, cookie_value = val, cookie_domain = h, host_only = True,
           cookie_path = path, secure_only = (attribute ''secure'' (cookie_attributes s) \<noteq> None),
           http_only = False \<rparr>)"

definition store_cookie ::
  "string \<Rightarrow> string \<Rightarrow> bool \<Rightarrow> string \<Rightarrow> string \<Rightarrow> cookie list \<Rightarrow> cookie list" where
  "store_cookie now h sec rp s store =
     (let new = parsed_cookie h rp s in
      if list_ex control_character s then store
      else if cookie_name new = [] \<and> cookie_value new = [] then store
      else if attribute ''httponly'' (cookie_attributes s) \<noteq> None then store
      else if secure_only new \<and> \<not> sec then store
      else if starts_with (map lower (cookie_name new)) ''__secure-'' \<and> \<not> secure_only new
      then store
      else if starts_with (map lower (cookie_name new)) ''__host-''
              \<and> \<not> (secure_only new \<and> cookie_path new = ''/'') then store
      else if \<not> secure_only new \<and> shadowed h sec (cookie_name new) (cookie_path new) store
      then store
      else if list_ex (\<lambda>old. cookie_key old = cookie_key new \<and> http_only old) store then store
      else filter (\<lambda>old. cookie_key old \<noteq> cookie_key new) store
           @ (if attribute ''expires'' (cookie_attributes s) = Some (trim now) then [] else [new]))"

text \<open>
  The document of the provider: its host and scheme are those of \<^verbatim>\<open>window.location.origin\<close>
  (\<^verbatim>\<open>scheme://host\<close>, with a port if it is not the default one), its request path is the
  location up to the query or fragment.
\<close>

definition hostname :: "provider \<Rightarrow> string" where
  "hostname st =
     takeWhile (\<lambda>x. x \<noteq> CHR '':'') (drop 3 (dropWhile (\<lambda>x. x \<noteq> CHR '':'') (origin st)))"

definition secure_document :: "provider \<Rightarrow> bool" where
  "secure_document st = starts_with (origin st) ''https://''"

definition pathname :: "provider \<Rightarrow> string" where
  "pathname st =
     (case takeWhile (\<lambda>x. x \<noteq> CHR ''?'' \<and> x \<noteq> CHR ''#'') (location st) of
        [] \<Rightarrow> ''/''
      | p # ps \<Rightarrow> p # ps)"

definition document_cookie :: "provider \<Rightarrow> string" where
  "document_cookie st =
     cookie_string (hostname st) (secure_document st) (pathname st) (cookies st)"

definition set_document_cookie :: "string \<Rightarrow> string \<Rightarrow> provider \<Rightarrow> provider" where
  "set_document_cookie now s st =
     st\<lparr>cookies :=
          store_cookie now (hostname st) (secure_document st) (pathname st) s (cookies st)\<rparr>"






section \<open>The credential operations\<close>

text \<open>
  Each operation is an \<^verbatim>\<open>async\<close> function around one remote call. \<open>_begin\<close> is the
  segment that runs from the call to the \<^verbatim>\<open>await\<close>, \<open>_resume\<close> the segment from the
  settled remote call to the end, with the \<^verbatim>\<open>catch\<close> and \<^verbatim>\<open>finally\<close> blocks; the
  operation itself is their composition. A result \<open>Inl e\<close> is the rejection of the
  returned promise with \<open>e\<close>.
\<close>

definition signUp_begin :: "string \<Rightarrow> string \<Rightarrow> string \<Rightarrow> provider \<Rightarrow> provider" where
  "signUp_begin addr password name st =
     remote (SignUp addr password name (origin st @ ''/'')) (setLoading True st)"

definition signUp_error :: "js_error \<Rightarrow> js_error" where
  "signUp_error e =
     (if includes' (message e) ''already registered''
      then Error ''An account with this email already exists. Please sign in instead.''
      else if includes' (message e) ''Invalid email''
      then Error ''Please enter a valid email address.''
      else if includes' (message e) ''Password''
      then Error ''Password must be at least 6 characters long.''
      else Error (if message e = [] then ''Account creation failed. Please try again.''
                  else message e))"

definition signUp_resume :: "'d response awaited \<Rightarrow> provider \<Rightarrow> (js_error + 'd) \<times> provider" where
  "signUp_resume settled st =
     (case settled of
        Rejected thrown \<Rightarrow> (Inl thrown, setLoading False st)
      | Fulfilled r \<Rightarrow>
          (case error r of
             Some e \<Rightarrow> (Inl (signUp_error e), setLoading False (console_error ''Signup error:'' e st))
           | None \<Rightarrow> (Inr (data r), setLoading False st)))"

definition signUp ::
  "string \<Rightarrow> string \<Rightarrow> string \<Rightarrow> 'd response awaited \<Rightarrow> provider \<Rightarrow> (js_error + 'd) \<times> provider" where
  "signUp addr password name settled st = signUp_resume settled (signUp_begin addr password name st)"

definition signIn_begin :: "string \<Rightarrow> string \<Rightarrow> provider \<Rightarrow> provider" where
  "signIn_begin addr password st = remote (SignInWithPassword addr password) (setLoading True st)"

definition signIn_error :: "js_error \<Rightarrow> js_error" where
  "signIn_error e =
     (if includes' (message e) ''Invalid login credentials''
      then Error ''Invalid email or password. Please check your credentials and try again.''
      else if includes' (message e) ''Email not confirmed''
      then Error ''Please check your email and click the verification link before signing in.''
      else if includes' (message e) ''Too many requests''
      then Error ''Too many login attempts. Please wait a moment and try again.''
      else Error (if message e = [] then ''Sign in failed. Please try again.'' else message e))"

definition signIn_resume :: "'d response awaited \<Rightarrow> provider \<Rightarrow> (js_error + 'd) \<times> provider" where
  "signIn_resume settled st =
     (case settled of
        Rejected thrown \<Rightarrow> (Inl thrown, setLoading False st)
      | Fulfilled r \<Rightarrow>
          (case error r of
             Some e \<Rightarrow> (Inl (signIn_error e), setLoading False (console_error ''Login error:'' e st))
           | None \<Rightarrow> (Inr (data r), setLoading False st)))"

definition signIn ::
  "string \<Rightarrow> string \<Rightarrow> 'd response awaited \<Rightarrow> provider \<Rightarrow> (js_error + 'd) \<times> provider" where
  "signIn addr password settled st = signIn_resume settled (signIn_begin addr password st)"

text \<open>
  \<^verbatim>\<open>signOut\<close> has two awaits on its normal path, the remote call and a timer of 100 ms,
  hence three segments. \<open>now\<close> is the clock reading \<^verbatim>\<open>new Date().toUTCString()\<close> of the
  cookie loop. \<^verbatim>\<open>window.location.replace\<close> changes the location and leaves the session
  history as it is. \<^verbatim>\<open>localStorage.clear()\<close> and \<^verbatim>\<open>sessionStorage.clear()\<close> throw when
  the browser denies storage to the page. An exception in the \<^verbatim>\<open>try\<close> block, thrown by
  the storage or by the awaited remote call, goes to the \<^verbatim>\<open>catch\<close> block
  (\<open>signOut_catch\<close>), which clears the storage again: an exception of that call leaves
  the function, after the \<^verbatim>\<open>finally\<close> block, as the rejection of its promise.
\<close>

definition clear_storage :: "provider \<Rightarrow> js_error + provider" where
  "clear_storage st =
     (case storage_denied st of
        Some e \<Rightarrow> Inl e
      | None \<Rightarrow> Inr (st\<lparr>localStorage := [], sessionStorage := []\<rparr>))"

definition location_replace :: "string \<Rightarrow> provider \<Rightarrow> provider" where
  "location_replace url st = st\<lparr>location := url\<rparr>"

definition expiry :: "string \<Rightarrow> string" where
  "expiry now = ''=;expires='' @ now @ '';path=/''"

text \<open>What the loop assigns to \<^verbatim>\<open>document.cookie\<close> for one piece of the cookie string.\<close>

definition assigned :: "string \<Rightarrow> string \<Rightarrow> string" where
  "assigned now c = replace_from_equals (strip_leading_spaces c) (expiry now)"

definition expire_cookies :: "string \<Rightarrow> provider \<Rightarrow> provider" where
  "expire_cookies now st =
     fold (\<lambda>c. set_document_cookie now (assigned now c))
          (split_str (CHR '';'') (document_cookie st)) st"

datatype signOut_status = AwaitingRemote | AwaitingTimer | SignedOut | Failed js_error

definition signOut_catch :: "js_error \<Rightarrow> provider \<Rightarrow> signOut_status \<times> provider" where
  "signOut_catch thrown st =
     (let st0 = setUser None (console_error ''Signout error:'' thrown st) in
      case clear_storage st0 of
        Inl e \<Rightarrow> (Failed e, setLoading False st0)
      | Inr st1 \<Rightarrow> (SignedOut, setLoading False (location_replace ''/'' st1)))"

definition signOut_begin :: "string \<Rightarrow> provider \<Rightarrow> signOut_status \<times> provider" where
  "signOut_begin now st =
     (let st0 = setLoading True st in
      case clear_storage st0 of
        Inl e \<Rightarrow> signOut_catch e st0
      | Inr st1 \<Rightarrow> (AwaitingRemote, remote SignOut (expire_cookies now st1)))"

definition signOut_settled :: "'d response awaited \<Rightarrow> provider \<Rightarrow> signOut_status \<times> provider" where
  "signOut_settled settled st =
     (case settled of
        Rejected thrown \<Rightarrow> signOut_catch thrown st
      | Fulfilled r \<Rightarrow>
          (AwaitingTimer,
           setUser None
             (case error r of Some e \<Rightarrow> console_error ''Signout error:'' e st | None \<Rightarrow> st)))"

definition signOut_timer :: "provider \<Rightarrow> provider" where
  "signOut_timer st = setLoading False (location_replace ''/'' st)"

text \<open>The segments that follow a segment, to the end of the operation.\<close>

definition signOut_finish ::
  "'d response awaited \<Rightarrow> signOut_status \<times> provider \<Rightarrow> (js_error + unit) \<times> provider" where
  "signOut_finish settled seg =
     (case seg of
        (AwaitingRemote, st) \<Rightarrow>
          (case signOut_settled settled st of
             (AwaitingTimer, st') \<Rightarrow> (Inr (), signOut_timer st')
           | (Failed e, st') \<Rightarrow> (Inl e, st')
           | (status, st') \<Rightarrow> (Inr (), st'))
      | (AwaitingTimer, st) \<Rightarrow> (Inr (), signOut_timer st)
      | (SignedOut, st) \<Rightarrow> (Inr (), st)
      | (Failed e, st) \<Rightarrow> (Inl e, st))"

definition signOut :: "string \<Rightarrow> 'd response awaited \<Rightarrow> provider \<Rightarrow> (js_error + unit) \<times> provider" where
  "signOut now settled st = signOut_finish settled (signOut_begin now st)"

section \<open>The effect and its subscription\<close>

text \<open>
  The effect of \<^verbatim>\<open>AuthProvider\<close> starts \<^verbatim>\<open>initializeAuth()\<close> and registers the handler with
  \<^verbatim>\<open>onAuthStateChange\<close>; the function it returns unsubscribes that subscription. Its
  dependency array is \<^verbatim>\<open>[loading]\<close>. React runs an effect after the first render and
  after every later render in which a dependency differs from its value at the
  previous run; before it runs the effect again, and when the component unmounts, it
  runs the cleanup that the previous run returned.
\<close>

definition effect :: "provider \<Rightarrow> provider" where
  "effect st =
     (let st0 = initializeAuth_begin st;
          i = next_subscription st0
      in remote (Subscribe i)
           (st0\<lparr>subscribed := subscribed st0 @ [i], next_subscription := Suc i,
                effect_cleanup := Some i, effect_deps := Some (loading st0)\<rparr>))"

definition cleanup :: "provider \<Rightarrow> provider" where
  "cleanup st =
     (case effect_cleanup st of
        None \<Rightarrow> st
      | Some i \<Rightarrow>
          remote (Unsubscribe i)
            (st\<lparr>subscribed := removeAll i (subscribed st), effect_cleanup := None\<rparr>))"

definition commit :: "provider \<Rightarrow> provider" where
  "commit st =
     (case effect_deps st of
        None \<Rightarrow> effect st
      | Some dep \<Rightarrow> if dep = loading st then st else effect (cleanup st))"

definition unmount :: "provider \<Rightarrow> provider" where
  "unmount st = cleanup st"

text \<open>
  The provider after its first render and after the successive renders in which
  \<^verbatim>\<open>loading\<close> had the values \<open>bs\<close> (each set by one of the segments above).
\<close>

definition rendered :: "bool list \<Rightarrow> provider \<Rightarrow> provider" where
  "rendered bs st = fold (\<lambda>b s. commit (setLoading b s)) bs (commit st)"

text \<open>The subscriptions registered and unregistered by a sequence of remote calls.\<close>

fun subscribes :: "remote_call list \<Rightarrow> nat list" where
  "subscribes [] = []"
| "subscribes (Subscribe i # cs) = i # subscribes cs"
| "subscribes (c # cs) = subscribes cs"

fun unsubscribes :: "remote_call list \<Rightarrow> nat list" where
  "unsubscribes [] = []"
| "unsubscribes (Unsubscribe i # cs) = i # unsubscribes cs"
| "unsubscribes (c # cs) = unsubscribes cs"

text \<open>The number of places at which a sequence of values changes.\<close>

fun changes :: "bool list \<Rightarrow> nat" where
  "changes (a # b # bs) = (if a = b then changes (b # bs) else Suc (changes (b # bs)))"
| "changes bs = 0"

section \<open>The hook \<^verbatim>\<open>useAuth\<close>\<close>

text \<open>
  \<^verbatim>\<open>useContext(AuthContext)\<close> reads the value of the nearest enclosing provider; the
  context was created with the default \<^verbatim>\<open>undefined\<close>, which is what a component with
  no enclosing provider reads. The enclosing providers' values are given innermost first.
\<close>

fun useContext :: "'ctx list \<Rightarrow> 'ctx option" where
  "useContext [] = None"
| "useContext (v # outer) = Some v"

definition useAuth :: "'ctx list \<Rightarrow> js_error + 'ctx" where
  "useAuth providers =
     (case useContext providers of
        None \<Rightarrow> Inl (Error ''useAuth must be used within an AuthProvider'')
      | Some context \<Rightarrow> Inr context)"

section \<open>Auxiliary notions of the proofs\<close>

text \<open>
  The state of a mounted provider whose effect last ran with \<^verbatim>\<open>loading\<close> equal to \<open>b\<close>
  and registered subscription \<open>k\<close>: that subscription alone is registered, and the
  subscriptions \<open>0\<close> to \<open>k\<close> have been registered and those before \<open>k\<close> unregistered.
\<close>

definition subscribed_once :: "nat \<Rightarrow> bool \<Rightarrow> provider \<Rightarrow> bool" where
  "subscribed_once k b st =
     (loading st = b \<and> effect_deps st = Some b \<and> effect_cleanup st = Some k
      \<and> subscribed st = [k] \<and> next_subscription st = Suc k
      \<and> subscribes (calls st) = [0..<Suc k] \<and> unsubscribes (calls st) = [0..<k])"


text \<open>The store that the cookie loop of the sign-out leaves.\<close>

definition expired_store :: "string \<Rightarrow> provider \<Rightarrow> cookie list" where
  "expired_store now st =
     fold (\<lambda>p. store_cookie now (hostname st) (secure_document st) (pathname st) (assigned now p))
          (split_str (CHR '';'') (document_cookie st)) (cookies st)"


definition session_A :: session where
  "session_A = \<lparr> access_token = ''token-A'',
                 session_user = \<lparr> user_id = ''A'', user_email = Some ''a@example.org'',
                                  user_metadata = Some [''username'' \<mapsto> ''alice''] \<rparr> \<rparr>"

section \<open>Lemmas\<close>

subsection \<open>The user after deliveries\<close>

lemma user_after_initial_load: "user (after_initial_load c st) = user st"
  by (simp add: after_initial_load_def setLoading_def)

lemma user_handler_begin:
  "user (snd (handler_begin c now event sess st)) =
     (if event = SIGNED_OUT then None else map_option to_User (user_of sess))"
  by (cases sess)
     (simp_all add: handler_begin_def Let_def user_of_def user_after_initial_load setUser_def
        remote_def console_log_def)

lemma user_handler_resume: "user (snd (handler_resume c up st)) = user st"
  by (cases up) (simp_all add: handler_resume_def user_after_initial_load console_error_def)

lemma user_deliver_UpsertSettled:
  "user (fst (deliver (UpsertSettled i up) cfg)) = user (fst cfg)"
  by (cases cfg) (simp add: user_handler_resume)

lemma user_deliver_Notify:
  "user (fst (deliver (Notify now event sess) cfg)) =
     (if event = SIGNED_OUT then None else map_option to_User (user_of sess))"
proof (cases cfg)
  case (Pair st suspended)
  obtain status st' where hb: "handler_begin (captured_loading st) now event sess st = (status, st')"
    by (cases "handler_begin (captured_loading st) now event sess st")
  have "user st' = (if event = SIGNED_OUT then None else map_option to_User (user_of sess))"
    using user_handler_begin [of "captured_loading st" now event sess st] hb by simp
  then show ?thesis using Pair hb by (cases status) simp_all
qed

lemma run_snoc: "run (ds @ [d]) cfg = deliver d (run ds cfg)"
  by (simp add: run_def)

lemma last_notification_snoc_Notify:
  "last_notification (ds @ [Notify now event sess]) = Some (event, sess)"
  by (induction ds rule: last_notification.induct) simp_all

lemma last_notification_snoc_UpsertSettled:
  "last_notification (ds @ [UpsertSettled i up]) = last_notification ds"
  by (induction ds rule: last_notification.induct) simp_all

lemma user_run:
  "user (fst (run ds cfg)) =
     (case last_notification ds of
        None \<Rightarrow> user (fst cfg)
      | Some (event, sess) \<Rightarrow>
          if event = SIGNED_OUT then None else map_option to_User (user_of sess))"
proof (induction ds rule: rev_induct)
  case Nil
  show ?case by (simp add: run_def)
next
  case (snoc d ds)
  show ?case
  proof (cases d)
    case (Notify now event sess)
    then show ?thesis
      by (simp add: run_snoc user_deliver_Notify last_notification_snoc_Notify)
  next
    case (UpsertSettled i up)
    then show ?thesis
      using snoc by (simp add: run_snoc user_deliver_UpsertSettled last_notification_snoc_UpsertSettled)
  qed
qed

subsection \<open>Splitting and joining\<close>













subsection \<open>Trimming\<close>








subsection \<open>Attributes\<close>



subsection \<open>What the browser reads in the strings of the loop\<close>







subsection \<open>One assignment of the loop\<close>












subsection \<open>The whole loop, on the store\<close>







subsection \<open>The store stays well-formed\<close>





subsection \<open>The loop and the sign-out, on the provider\<close>

lemma loop_on_provider:
  "fold (\<lambda>p. set_document_cookie now (f p)) ps st
     = st\<lparr>cookies := fold (\<lambda>p. store_cookie now (hostname st) (secure_document st) (pathname st) (f p))
                        ps (cookies st)\<rparr>"
proof (induction ps arbitrary: st)
  case Nil
  show ?case by simp
next
  case (Cons p ps)
  show ?case
    by (simp add: Cons.IH) (simp add: set_document_cookie_def hostname_def secure_document_def pathname_def)
qed

lemma expire_cookies_eq: "expire_cookies now st = st\<lparr>cookies := expired_store now st\<rparr>"
  by (simp add: expire_cookies_def expired_store_def loop_on_provider)

lemma expired_store_frame:
  "expired_store now (st\<lparr>loading := b, localStorage := ls, sessionStorage := ss\<rparr>) = expired_store now st"
  by (simp add: expired_store_def document_cookie_def hostname_def secure_document_def pathname_def)



lemma signOut_eq:
  assumes "storage_denied st = None"
  shows "signOut now settled st =
    (Inr (),
     st\<lparr>user := None, loading := False, localStorage := [], sessionStorage := [],
        cookies := expired_store now st,
        location := ''/'', calls := calls st @ [SignOut],
        console := console st @
          (case settled of
             Rejected thrown \<Rightarrow> [ConsoleError ''Signout error:'' thrown]
           | Fulfilled r \<Rightarrow>
               (case error r of Some e \<Rightarrow> [ConsoleError ''Signout error:'' e] | None \<Rightarrow> []))\<rparr>)"
proof -
  have first: "signOut_begin now st =
      (AwaitingRemote,
       st\<lparr>loading := True, localStorage := [], sessionStorage := [],
          cookies := expired_store now st, calls := calls st @ [SignOut]\<rparr>)"
    using assms
    by (simp add: signOut_begin_def Let_def clear_storage_def setLoading_def expire_cookies_eq
        expired_store_frame remote_def)
  show ?thesis
    unfolding signOut_def first
    using assms
    by (simp add: signOut_finish_def signOut_settled_def signOut_catch_def signOut_timer_def
        clear_storage_def setLoading_def setUser_def location_replace_def console_error_def Let_def
        split: awaited.splits option.splits)
qed

lemma signOut_storage_denied:
  assumes "storage_denied st = Some e"
  shows "signOut now settled st =
    (Inl e, st\<lparr>user := None, loading := False,
               console := console st @ [ConsoleError ''Signout error:'' e]\<rparr>)"
  using assms
  by (simp add: signOut_def signOut_begin_def signOut_finish_def signOut_catch_def clear_storage_def
      setLoading_def setUser_def console_error_def Let_def)

subsection \<open>Error classification\<close>

lemma signIn_returned_error:
  "fst (signIn addr password (Fulfilled \<lparr>data = d, error = Some e\<rparr>) st) = Inl (signIn_error e)"
  by (simp add: signIn_def signIn_resume_def)

lemma signUp_returned_error:
  "fst (signUp addr password name (Fulfilled \<lparr>data = d, error = Some e\<rparr>) st) = Inl (signUp_error e)"
  by (simp add: signUp_def signUp_resume_def)

lemma invalid_credentials_message_is_not_raw:
  "\<not> includes' ''Invalid email or password. Please check your credentials and try again.''
       ''Invalid login credentials''"
  by simp

subsection \<open>The loading flag\<close>

lemma loading_after_initial_load:
  "loading (after_initial_load captured st) = (if captured then False else loading st)"
  by (simp add: after_initial_load_def setLoading_def)

lemma loading_handler:
  "loading (snd (handler captured now event sess upserted st))
     = (if captured then False else loading st)"
  by (cases sess; cases upserted)
     (simp_all add: handler_def handler_begin_def handler_resume_def Let_def user_of_def
        loading_after_initial_load setUser_def remote_def console_log_def console_error_def)

lemma loading_initializeAuth: "loading (snd (initializeAuth got_session got_user st)) = False"
  by (simp add: initializeAuth_def initializeAuth_resume_def Let_def setLoading_def)

lemma loading_signOut: "loading (snd (signOut now settled st)) = False"
proof (cases "storage_denied st")
  case None
  then show ?thesis by (simp add: signOut_eq)
next
  case (Some e)
  then show ?thesis by (simp add: signOut_storage_denied)
qed

lemma loading_signOut_begin: "loading (snd (signOut_begin now st)) = (storage_denied st = None)"
  by (cases "storage_denied st")
     (simp_all add: signOut_begin_def signOut_catch_def clear_storage_def Let_def expire_cookies_eq
        setLoading_def setUser_def console_error_def remote_def)

subsection \<open>Subscriptions over the renders\<close>

lemma subscribes_append: "subscribes (cs @ ds) = subscribes cs @ subscribes ds"
  by (induction cs rule: subscribes.induct) simp_all

lemma unsubscribes_append: "unsubscribes (cs @ ds) = unsubscribes cs @ unsubscribes ds"
  by (induction cs rule: unsubscribes.induct) simp_all
lemma commit_mount:
  "subscribed_once 0 True (commit (AuthProvider local_store session_store cookie_jar org loc hist))"
  by (simp add: subscribed_once_def commit_def effect_def initializeAuth_begin_def remote_def
      AuthProvider_def Let_def)

lemma commit_same:
  "subscribed_once k b st \<Longrightarrow> subscribed_once k b (commit (setLoading b st))"
  by (simp add: subscribed_once_def commit_def setLoading_def)

lemma commit_changed:
  "subscribed_once k b st \<Longrightarrow> b' \<noteq> b \<Longrightarrow> subscribed_once (Suc k) b' (commit (setLoading b' st))"
  by (simp add: subscribed_once_def commit_def setLoading_def cleanup_def effect_def
      initializeAuth_begin_def remote_def Let_def subscribes_append unsubscribes_append)

lemma fold_commit:
  "subscribed_once k b st \<Longrightarrow>
   subscribed_once (k + changes (b # bs)) (last (b # bs)) (fold (\<lambda>b s. commit (setLoading b s)) bs st)"
proof (induction bs arbitrary: k b st)
  case Nil
  then show ?case by simp
next
  case (Cons b' bs)
  show ?case
  proof (cases "b' = b")
    case True
    then show ?thesis
      using Cons.IH [OF commit_same [OF Cons.prems]] by simp
  next
    case False
    then show ?thesis
      using Cons.IH [OF commit_changed [OF Cons.prems False]] by simp
  qed
qed

lemma rendered_subscribed_once:
  "subscribed_once (changes (True # bs)) (last (True # bs))
     (rendered bs (AuthProvider local_store session_store cookie_jar org loc hist))"
  unfolding rendered_def using fold_commit [OF commit_mount, of bs] by simp

section \<open>Properties\<close>

text \<open>
  Claim C1, as the handler has it. After any sequence of change notifications, with the
  upserts they started settling at any time and with any outcome, \<^verbatim>\<open>user\<close> is present
  if and only if the most recent notification had an event other than \<^verbatim>\<open>SIGNED_OUT\<close> and
  carried a session; it is then the projection of that session's user. In particular
  the notifications (session A, then null) leave \<^verbatim>\<open>user\<close> absent.
\<close>

theorem user_follows_last_notification:
  "last_notification ds = Some (event, sess) \<Longrightarrow>
     (user (fst (run ds cfg)) \<noteq> None \<longleftrightarrow> event \<noteq> SIGNED_OUT \<and> sess \<noteq> None)
   \<and> user (fst (run ds cfg)) = (if event = SIGNED_OUT then None else map_option to_User (user_of sess))"
  by (cases sess) (simp_all add: user_run user_of_def)

text \<open>
  The sequence (session A, then null), with the upsert of the first notification
  rejecting after the second notification.
\<close>

theorem user_follows_last_notification_witness:
  "last_notification
     [Notify ''2026-01-01T00:00:00.000Z'' SIGNED_IN (Some session_A),
      Notify ''2026-01-01T00:00:01.000Z'' SIGNED_OUT None,
      UpsertSettled 0 (Rejected (Error ''Failed to fetch'') :: unit awaited)]
     = Some (SIGNED_OUT, None)
   \<and> user (fst (run
       [Notify ''2026-01-01T00:00:00.000Z'' SIGNED_IN (Some session_A),
        Notify ''2026-01-01T00:00:01.000Z'' SIGNED_OUT None,
        UpsertSettled 0 (Rejected (Error ''Failed to fetch'') :: unit awaited)]
       (AuthProvider [] [] [] ''https://example.org'' ''/'' [], []))) = None"
proof -
  let ?ds = "[Notify ''2026-01-01T00:00:00.000Z'' SIGNED_IN (Some session_A),
      Notify ''2026-01-01T00:00:01.000Z'' SIGNED_OUT None,
      UpsertSettled 0 (Rejected (Error ''Failed to fetch'') :: unit awaited)]"
  have h: "last_notification ?ds = Some (SIGNED_OUT, None)" by simp
  show ?thesis
    using h user_follows_last_notification [OF h, of "(AuthProvider [] [] [] ''https://example.org'' ''/'' [], [])"]
    by simp
qed

text \<open>
  A \<^verbatim>\<open>SIGNED_OUT\<close> notification that carries a session leaves \<^verbatim>\<open>user\<close> absent: the handler
  tests the event before the session.
\<close>

theorem signed_out_event_with_session_counterexample:
  "last_notification [Notify ''2026-01-01T00:00:00.000Z'' SIGNED_OUT (Some session_A) :: unit delivery]
     = Some (SIGNED_OUT, Some session_A)
   \<and> \<not> (user (fst (run [Notify ''2026-01-01T00:00:00.000Z'' SIGNED_OUT (Some session_A) :: unit delivery]
                    (AuthProvider [] [] [] ''https://example.org'' ''/'' [], []))) \<noteq> None
        \<longleftrightarrow> Some session_A \<noteq> None)"
  by (simp add: run_def handler_begin_def Let_def after_initial_load_def setUser_def
      setLoading_def console_log_def AuthProvider_def)




text \<open>
  Claim C3, as the code has it. When the remote call returns an error, \<^verbatim>\<open>signIn\<close>
  rejects with exactly the invalid-credentials message, which differs from the remote
  message, if the remote message contains \<^verbatim>\<open>Invalid login credentials\<close>, and \<^verbatim>\<open>signUp\<close>
  rejects with exactly the already-registered message if it contains
  \<^verbatim>\<open>already registered\<close>. A remote message that matches none of the operation's patterns
  is thrown again with its own text when that text is not empty, and with the
  operation's fallback text when it is empty.
\<close>

theorem credential_errors_are_classified:
  "(includes' m1 ''Invalid login credentials'' \<longrightarrow>
      fst (signIn addr password (Fulfilled \<lparr>data = d, error = Some (Error m1)\<rparr>) st)
        = Inl (Error ''Invalid email or password. Please check your credentials and try again.'')
      \<and> m1 \<noteq> ''Invalid email or password. Please check your credentials and try again.'')
   \<and> (includes' m2 ''already registered'' \<longrightarrow>
      fst (signUp addr password name (Fulfilled \<lparr>data = d, error = Some (Error m2)\<rparr>) st)
        = Inl (Error ''An account with this email already exists. Please sign in instead.''))
   \<and> (\<not> includes' m3 ''Invalid login credentials'' \<and> \<not> includes' m3 ''Email not confirmed''
        \<and> \<not> includes' m3 ''Too many requests'' \<longrightarrow>
      fst (signIn addr password (Fulfilled \<lparr>data = d, error = Some (Error m3)\<rparr>) st)
        = Inl (Error (if m3 = [] then ''Sign in failed. Please try again.'' else m3)))
   \<and> (\<not> includes' m4 ''already registered'' \<and> \<not> includes' m4 ''Invalid email''
        \<and> \<not> includes' m4 ''Password'' \<longrightarrow>
      fst (signUp addr password name (Fulfilled \<lparr>data = d, error = Some (Error m4)\<rparr>) st)
        = Inl (Error (if m4 = [] then ''Account creation failed. Please try again.'' else m4)))"
proof -
  have "m1 \<noteq> ''Invalid email or password. Please check your credentials and try again.''"
    if "includes' m1 ''Invalid login credentials''"
    using that invalid_credentials_message_is_not_raw by blast
  then show ?thesis
    by (simp add: signIn_returned_error signUp_returned_error signIn_error_def signUp_error_def)
qed

text \<open>One remote message for each of the four cases.\<close>

theorem credential_errors_are_classified_witness:
  "includes' ''Invalid login credentials'' ''Invalid login credentials''
   \<and> fst (signIn ''a@example.org'' ''hunter2''
          (Fulfilled \<lparr>data = (), error = Some (Error ''Invalid login credentials'')\<rparr>)
          (AuthProvider [] [] [] ''https://example.org'' ''/login'' []))
       = Inl (Error ''Invalid email or password. Please check your credentials and try again.'')
   \<and> includes' ''User already registered'' ''already registered''
   \<and> fst (signUp ''a@example.org'' ''hunter2'' ''alice''
          (Fulfilled \<lparr>data = (), error = Some (Error ''User already registered'')\<rparr>)
          (AuthProvider [] [] [] ''https://example.org'' ''/login'' []))
       = Inl (Error ''An account with this email already exists. Please sign in instead.'')
   \<and> \<not> includes' ''Failed to fetch'' ''Invalid login credentials''
   \<and> \<not> includes' ''Failed to fetch'' ''Email not confirmed''
   \<and> \<not> includes' ''Failed to fetch'' ''Too many requests''
   \<and> fst (signIn ''a@example.org'' ''hunter2''
          (Fulfilled \<lparr>data = (), error = Some (Error ''Failed to fetch'')\<rparr>)
          (AuthProvider [] [] [] ''https://example.org'' ''/login'' []))
       = Inl (Error ''Failed to fetch'')
   \<and> \<not> includes' ''Signups not allowed'' ''already registered''
   \<and> \<not> includes' ''Signups not allowed'' ''Invalid email''
   \<and> \<not> includes' ''Signups not allowed'' ''Password''
   \<and> fst (signUp ''a@example.org'' ''hunter2'' ''alice''
          (Fulfilled \<lparr>data = (), error = Some (Error ''Signups not allowed'')\<rparr>)
          (AuthProvider [] [] [] ''https://example.org'' ''/login'' []))
       = Inl (Error ''Signups not allowed'')"
proof -
  have h1: "includes' ''Invalid login credentials'' ''Invalid login credentials''"
    by simp
  have h2: "includes' ''User already registered'' ''already registered''"
    by simp
  have h3: "\<not> includes' ''Failed to fetch'' ''Invalid login credentials''
      \<and> \<not> includes' ''Failed to fetch'' ''Email not confirmed''
      \<and> \<not> includes' ''Failed to fetch'' ''Too many requests''"
    by simp
  have h4: "\<not> includes' ''Signups not allowed'' ''already registered''
      \<and> \<not> includes' ''Signups not allowed'' ''Invalid email''
      \<and> \<not> includes' ''Signups not allowed'' ''Password''"
    by simp
  show ?thesis
    using h1 h2 h3 h4
      credential_errors_are_classified [where ?m1.0 = "''Invalid login credentials''"
        and ?m2.0 = "''User already registered''" and ?m3.0 = "''Failed to fetch''"
        and ?m4.0 = "''Signups not allowed''" and addr = "''a@example.org''"
        and password = "''hunter2''" and name = "''alice''" and d = "()"
        and st = "AuthProvider [] [] [] ''https://example.org'' ''/login'' []"]
    by simp
qed

text \<open>
  An empty remote message matches no pattern of \<^verbatim>\<open>signIn\<close>, and the error thrown does
  not carry it: \<^verbatim>\<open>error.message || 'Sign in failed. Please try again.'\<close>.
\<close>

theorem empty_remote_message_counterexample:
  "\<not> includes' [] ''Invalid login credentials''
   \<and> \<not> includes' [] ''Email not confirmed''
   \<and> \<not> includes' [] ''Too many requests''
   \<and> fst (signIn ''a@example.org'' ''hunter2'' (Fulfilled \<lparr>data = (), error = Some (Error [])\<rparr>)
          (AuthProvider [] [] [] ''https://example.org'' ''/login'' []))
       \<noteq> Inl (Error [])"
  by (simp add: signIn_def signIn_resume_def signIn_error_def)

text \<open>
  Claim C4, as the code has it. \<^verbatim>\<open>loading\<close> is true at mount. The initial session fetch
  ends with \<^verbatim>\<open>loading\<close> false, and so does a notification handler whose closure captured
  \<^verbatim>\<open>loading\<close> true (one that captured false leaves the flag as it is); neither sets it
  to true. Each of \<^verbatim>\<open>signUp\<close>, \<^verbatim>\<open>signIn\<close> and \<^verbatim>\<open>signOut\<close> sets \<^verbatim>\<open>loading\<close> to true when it
  starts and to false when it ends, whatever the remote call did. (The first statement
  of \<^verbatim>\<open>signOut\<close> is \<^verbatim>\<open>setLoading(true)\<close>; its first segment ends with \<^verbatim>\<open>loading\<close> true at the
  remote call, unless the browser denies the storage, in which case the operation has
  ended there, with \<^verbatim>\<open>loading\<close> false.)
\<close>

theorem loading_is_set_again_by_the_operations:
  "loading (AuthProvider local_store session_store cookie_jar org loc hist) = True
   \<and> loading (snd (initializeAuth got_session got_user st)) = False
   \<and> loading (snd (handler captured now event sess upserted st))
        = (if captured then False else loading st)
   \<and> loading (signUp_begin addr password name st) = True
   \<and> loading (snd (signUp addr password name settled st)) = False
   \<and> loading (signIn_begin addr password st) = True
   \<and> loading (snd (signIn addr password settled st)) = False
   \<and> loading (snd (signOut_begin now st)) = (storage_denied st = None)
   \<and> loading (snd (signOut now settled' st)) = False"
  by (simp add: loading_initializeAuth loading_handler loading_signOut loading_signOut_begin
      AuthProvider_def signUp_begin_def signIn_begin_def signUp_def signIn_def
      signUp_resume_def signIn_resume_def
      remote_def setLoading_def console_error_def
      split: awaited.splits option.splits)

text \<open>
  After the initial fetch has cleared \<^verbatim>\<open>loading\<close>, the start of a sign-in sets it to
  true again.
\<close>

theorem signIn_sets_loading_again_counterexample:
  "loading (AuthProvider [] [] [] ''https://example.org'' ''/login'' [])
   \<and> \<not> loading (snd (initializeAuth (Fulfilled \<lparr>data = None, error = None\<rparr>)
                      (Fulfilled \<lparr>data = (), error = None\<rparr>)
                      (AuthProvider [] [] [] ''https://example.org'' ''/login'' [])))
   \<and> loading (signIn_begin ''a@example.org'' ''hunter2''
        (snd (initializeAuth (Fulfilled \<lparr>data = None, error = None\<rparr>)
                (Fulfilled \<lparr>data = (), error = None\<rparr>)
                (AuthProvider [] [] [] ''https://example.org'' ''/login'' []))))"
  by (simp add: AuthProvider_def initializeAuth_def initializeAuth_begin_def
      initializeAuth_resume_def user_of_def setUser_def setLoading_def remote_def signIn_begin_def)

text \<open>
  Claim C5. For a notification that carries a session, whatever the upsert does (in
  particular when it rejects, or fulfils with an error), the handler's promise fulfils,
  \<^verbatim>\<open>user\<close> is the projection of the session's user whenever the upsert was started
  (the event is not \<^verbatim>\<open>SIGNED_OUT\<close>), and the handler has issued that one upsert and no
  other remote call: nothing is retried. A rejected upsert changes nothing but the
  console.
\<close>

theorem upsert_failure_is_swallowed:
  "fst (handler captured now event (Some s) upserted st) = Inr ()
   \<and> user (snd (handler captured now event (Some s) upserted st))
        = (if event = SIGNED_OUT then None else Some (to_User (session_user s)))
   \<and> calls (snd (handler captured now event (Some s) upserted st))
        = calls st @
          (if event = SIGNED_OUT then []
           else [Upsert ''users''
                   \<lparr> row_id = user_id (session_user s), row_email = user_email (session_user s),
                     created_at = now \<rparr> ''id'' False])
   \<and> (snd (handler captured now event (Some s) (Rejected e) st))\<lparr>console := []\<rparr>
        = (snd (handler captured now event (Some s) (Fulfilled r) st))\<lparr>console := []\<rparr>"
  by (simp add: handler_def handler_begin_def handler_resume_def Let_def user_of_def
      after_initial_load_def setUser_def setLoading_def remote_def console_log_def console_error_def
      split: awaited.splits)

text \<open>
  Claim C6. When the remote call succeeds, \<^verbatim>\<open>signUp\<close> and \<^verbatim>\<open>signIn\<close> return the remote
  data as they are and leave \<^verbatim>\<open>user\<close> unchanged.
\<close>

theorem successful_credential_operations_keep_user:
  "fst (signUp addr password name (Fulfilled \<lparr>data = d, error = None\<rparr>) st) = Inr d
   \<and> user (snd (signUp addr password name (Fulfilled \<lparr>data = d, error = None\<rparr>) st)) = user st
   \<and> fst (signIn addr password (Fulfilled \<lparr>data = d, error = None\<rparr>) st) = Inr d
   \<and> user (snd (signIn addr password (Fulfilled \<lparr>data = d, error = None\<rparr>) st)) = user st"
  by (simp add: signUp_def signUp_begin_def signUp_resume_def signIn_def signIn_begin_def
      signIn_resume_def remote_def setLoading_def)




text \<open>
  Claim C8, as the effect has it. Over the lifetime of a provider, from its mount through
  renders with any values of \<^verbatim>\<open>loading\<close> to its unmount: while it is mounted exactly one
  subscription is registered; the effect registers a new one at mount and at every
  change of \<^verbatim>\<open>loading\<close>, after unregistering the previous one; after the unmount none
  is registered, and each subscription that was registered has been unregistered
  exactly once.
\<close>

theorem one_subscription_per_effect_run:
  "subscribed (rendered bs (AuthProvider local_store session_store cookie_jar org loc hist))
     = [changes (True # bs)]
   \<and> subscribes (calls (rendered bs (AuthProvider local_store session_store cookie_jar org loc hist)))
     = [0..<Suc (changes (True # bs))]
   \<and> unsubscribes (calls (rendered bs (AuthProvider local_store session_store cookie_jar org loc hist)))
     = [0..<changes (True # bs)]
   \<and> subscribed (unmount (rendered bs (AuthProvider local_store session_store cookie_jar org loc hist)))
     = []
   \<and> subscribes (calls (unmount (rendered bs (AuthProvider local_store session_store cookie_jar org loc hist))))
     = [0..<Suc (changes (True # bs))]
   \<and> unsubscribes (calls (unmount (rendered bs (AuthProvider local_store session_store cookie_jar org loc hist))))
     = [0..<Suc (changes (True # bs))]"
  using rendered_subscribed_once [of bs local_store session_store cookie_jar org loc hist]
  by (simp add: subscribed_once_def unmount_def cleanup_def remote_def
      subscribes_append unsubscribes_append)

text \<open>
  When the initial fetch clears \<^verbatim>\<open>loading\<close>, the effect runs again: the first
  subscription is unregistered while the provider is mounted, and a second one is
  registered.
\<close>

theorem resubscription_counterexample:
  "subscribes (calls (rendered [False] (AuthProvider [] [] [] ''https://example.org'' ''/'' []))) = [0, 1]
   \<and> unsubscribes (calls (rendered [False] (AuthProvider [] [] [] ''https://example.org'' ''/'' []))) = [0]"
  by (simp add: rendered_def commit_def effect_def cleanup_def initializeAuth_begin_def
      remote_def setLoading_def AuthProvider_def Let_def)

text \<open>
  Claim C9. When the initial \<^verbatim>\<open>getSession()\<close> rejects or returns an error,
  \<^verbatim>\<open>initializeAuth\<close> ends with \<^verbatim>\<open>user\<close> absent and \<^verbatim>\<open>loading\<close> false, and its promise
  fulfils.
\<close>

theorem failed_session_fetch_is_signed_out:
  "fst (initializeAuth (Rejected thrown) got_user st) = Inr ()
   \<and> user (snd (initializeAuth (Rejected thrown) got_user st)) = None
   \<and> loading (snd (initializeAuth (Rejected thrown) got_user st)) = False
   \<and> fst (initializeAuth (Fulfilled \<lparr>data = d, error = Some e\<rparr>) got_user st) = Inr ()
   \<and> user (snd (initializeAuth (Fulfilled \<lparr>data = d, error = Some e\<rparr>) got_user st)) = None
   \<and> loading (snd (initializeAuth (Fulfilled \<lparr>data = d, error = Some e\<rparr>) got_user st)) = False"
  by (simp add: initializeAuth_def initializeAuth_begin_def initializeAuth_resume_def
      setUser_def setLoading_def remote_def console_error_def)

text \<open>
  Claim C10. Outside of any \<^verbatim>\<open>AuthProvider\<close> the hook \<^verbatim>\<open>useAuth\<close> throws an error whose
  message is \<^verbatim>\<open>useAuth must be used within an AuthProvider\<close>; inside a provider it does
  not throw and returns the value of the nearest provider.
\<close>

theorem useAuth_outside_throws_inside_returns:
  "useAuth ([] :: 'ctx list) = Inl (Error ''useAuth must be used within an AuthProvider'')
   \<and> useAuth (v # outer) = Inr v"
  by (simp add: useAuth_def)

end
